theory Spec2Isabelle
  imports Main
begin

section \<open>JavaScript strings and optional values\<close>

text \<open>
  A JavaScript string is modelled as a \<open>string\<close> whose characters are the code units
  below 256. A variable that may hold \<open>undefined\<close> is an \<open>option\<close>, with
  \<open>None\<close> for \<open>undefined\<close>.
\<close>

text \<open>The characters matched by \<open>\s\<close> (and removed by \<open>trim\<close>) in that range:
  TAB, LF, VT, FF, CR, SPACE and NBSP.\<close>

definition is_space :: "char \<Rightarrow> bool" where
  "is_space c = (c = CHR 0x09 \<or> c = CHR 0x0A \<or> c = CHR 0x0B \<or> c = CHR 0x0C
                 \<or> c = CHR 0x0D \<or> c = CHR 0x20 \<or> c = CHR 0xA0)"

text \<open>\<open>s.trim()\<close>\<close>

definition trim :: "string \<Rightarrow> string" where
  "trim s = rev (dropWhile is_space (rev (dropWhile is_space s)))"

text \<open>\<open>s.replace(/\|/g, ' ')\<close>\<close>

definition replace_pipes :: "string \<Rightarrow> string" where
  "replace_pipes s = map (\<lambda>c. if c = CHR ''|'' then CHR '' '' else c) s"

text \<open>\<open>s.replace(/\s+/g, ' ')\<close>: every maximal run of white space becomes one space.
  The flag says that the previous character belonged to a run already replaced.\<close>

fun collapse_from :: "bool \<Rightarrow> string \<Rightarrow> string" where
  "collapse_from in_run [] = []"
| "collapse_from in_run (c # cs) =
     (if is_space c then (if in_run then collapse_from True cs
                          else CHR '' '' # collapse_from True cs)
      else c # collapse_from False cs)"

definition collapse_spaces :: "string \<Rightarrow> string" where
  "collapse_spaces s = collapse_from False s"

text \<open>\<open>s.split(d)\<close> for a one-character separator: the empty string gives one empty
  field, and neighbouring separators give empty fields.\<close>

fun split_on :: "char \<Rightarrow> string \<Rightarrow> string list" where
  "split_on d [] = [[]]"
| "split_on d (c # cs) =
     (if c = d then [] # split_on d cs
      else (case split_on d cs of
              [] \<Rightarrow> [[c]]
            | w # ws \<Rightarrow> (c # w) # ws))"

text \<open>Array destructuring \<open>[a, b, ...] = xs\<close>: a position past the end is \<open>undefined\<close>.\<close>

definition nth_opt :: "'a list \<Rightarrow> nat \<Rightarrow> 'a option" where
  "nth_opt xs i = (if i < length xs then Some (xs ! i) else None)"

text \<open>Truthiness of a value that is a string or \<open>undefined\<close>.\<close>

fun truthy_str :: "string option \<Rightarrow> bool" where
  "truthy_str None = False"
| "truthy_str (Some s) = (s \<noteq> [])"

section \<open>The input normalizer: \<open>parseGenInput\<close>\<close>

record genInput =
  bin :: "string option"
  month :: "string option"
  year :: "string option"
  cvv :: "string option"

definition is_x :: "char \<Rightarrow> bool" where
  "is_x c = (c = CHR ''x'' \<or> c = CHR ''X'')"

text \<open>\<open>bin.replace(/x+$/i, '')\<close>\<close>

definition strip_trailing_x :: "string \<Rightarrow> string" where
  "strip_trailing_x s = rev (dropWhile is_x (rev s))"

definition is_digit :: "char \<Rightarrow> bool" where
  "is_digit c = (c \<in> set ''0123456789'')"

text \<open>\<open>y && y.length === 2 ? '20' + y : y\<close>, which is also the effect of
  \<open>if (year && year.length === 2) year = '20' + year\<close>.\<close>

fun expand_year :: "string option \<Rightarrow> string option" where
  "expand_year None = None"
| "expand_year (Some y) = (if y \<noteq> [] \<and> length y = 2 then Some (''20'' @ y) else Some y)"

text \<open>\<open>/^20[2-3][0-9]$/.test(s)\<close>\<close>

fun looks_like_year :: "string \<Rightarrow> bool" where
  "looks_like_year [a, b, c, d] =
     (a = CHR ''2'' \<and> b = CHR ''0'' \<and> (c = CHR ''2'' \<or> c = CHR ''3'') \<and> is_digit d)"
| "looks_like_year s = False"

text \<open>\<open>/^0[1-9]|1[0-2]$/.test(s)\<close>: the alternation binds weaker than the anchors, so
  the pattern is "starts with 0 and a digit 1 to 9" or "ends with 1 and a digit 0 to 2".\<close>

fun starts_01_09 :: "string \<Rightarrow> bool" where
  "starts_01_09 (a # b # s) = (a = CHR ''0'' \<and> b \<in> set ''123456789'')"
| "starts_01_09 s = False"

fun ends_10_12 :: "string \<Rightarrow> bool" where
  "ends_10_12 [] = False"
| "ends_10_12 [a] = False"
| "ends_10_12 [a, b] = (a = CHR ''1'' \<and> b \<in> set ''012'')"
| "ends_10_12 (a # b # c # s) = ends_10_12 (b # c # s)"

definition looks_like_month :: "string \<Rightarrow> bool" where
  "looks_like_month s = (starts_01_09 s \<or> ends_10_12 s)"

text \<open>The positional fields: the input trimmed, pipes turned into spaces, white space
  collapsed, split at single spaces.\<close>

definition split_fields :: "string \<Rightarrow> string list" where
  "split_fields input = split_on (CHR '' '') (collapse_spaces (replace_pipes (trim input)))"

text \<open>The month field holding a slash: \<open>const [m, y] = month.split('/')\<close>, then
  \<open>month = m\<close> and the year is replaced by the expanded \<open>y\<close>.\<close>

fun split_month :: "string option \<Rightarrow> string option \<Rightarrow> string option \<times> string option" where
  "split_month None y0 = (None, y0)"
| "split_month (Some m0) y0 =
     (if m0 \<noteq> [] \<and> CHR ''/'' \<in> set m0
      then (nth_opt (split_on (CHR ''/'') m0) 0, expand_year (nth_opt (split_on (CHR ''/'') m0) 1))
      else (Some m0, y0))"

text \<open>The swap of a month that looks like a year with a year that looks like a month.\<close>

fun swap_fields :: "string option \<Rightarrow> string option \<Rightarrow> string option \<times> string option" where
  "swap_fields (Some m) (Some y) =
     (if y \<noteq> [] \<and> m \<noteq> [] \<and> length m = 4 \<and> looks_like_year m \<and> looks_like_month y
      then (Some y, Some m) else (Some m, Some y))"
| "swap_fields m y = (m, y)"

text \<open>\<open>if (cvv && /x/i.test(cvv)) cvv = undefined\<close>\<close>

fun drop_masked_cvv :: "string option \<Rightarrow> string option" where
  "drop_masked_cvv None = None"
| "drop_masked_cvv (Some c) = (if c \<noteq> [] \<and> list_ex is_x c then None else Some c)"

definition parseGenInput :: "string \<Rightarrow> genInput" where
  "parseGenInput input =
     (let parts = split_fields input;
          bin0 = nth_opt parts 0;
          month0 = nth_opt parts 1;
          year0 = nth_opt parts 2;
          cvv0 = nth_opt parts 3;
          bin1 = (if truthy_str bin0 then map_option strip_trailing_x bin0 else bin0);
          my1 = split_month month0 year0;
          year2 = expand_year (snd my1);
          my3 = swap_fields (fst my1) year2
      in \<lparr> bin = bin1, month = fst my3, year = snd my3, cvv = drop_masked_cvv cvv0 \<rparr>)"

section \<open>The cooldown and the in-flight set\<close>

text \<open>
  The module-level state: \<open>userStates\<close> maps a user id to the time of the last allowed
  command (milliseconds, as \<open>Date.now()\<close> returns them), \<open>processingCommands\<close> is the set
  of command keys being processed. A key is the string \<open>userId_messageId_slash\<close>, modelled
  by the pair of its two numbers. \<open>timers\<close> lists the deletions scheduled with
  \<open>setTimeout\<close>: the delay and the key to delete.
\<close>

type_synonym command_key = "int \<times> int"

record guard_state =
  userStates :: "int \<rightharpoonup> int"
  processingCommands :: "command_key set"
  timers :: "(nat \<times> command_key) list"

definition COOLDOWN_PERIOD :: int where
  "COOLDOWN_PERIOD = 2000"

text \<open>\<open>isCommandAllowed\<close>, with the clock reading \<open>now\<close> as a parameter. The test
  \<open>!lastCommandTime\<close> holds for \<open>undefined\<close> and for the number 0.\<close>

definition isCommandAllowed :: "int \<Rightarrow> int \<Rightarrow> guard_state \<Rightarrow> bool \<times> guard_state" where
  "isCommandAllowed now userId s =
     (case userStates s userId of
        None \<Rightarrow> (True, s\<lparr>userStates := (userStates s)(userId \<mapsto> now)\<rparr>)
      | Some lastCommandTime \<Rightarrow>
          if lastCommandTime = 0 \<or> now - lastCommandTime \<ge> COOLDOWN_PERIOD
          then (True, s\<lparr>userStates := (userStates s)(userId \<mapsto> now)\<rparr>)
          else (False, s))"

text \<open>The part of the update context the middleware reads: \<open>ctx.message.text\<close>
  (\<open>None\<close> when there is no message or no text), \<open>ctx.from.id\<close> and
  \<open>ctx.message.message_id\<close>.\<close>

record ctx =
  message_text :: "string option"
  from_id :: int
  message_id :: int

text \<open>\<open>ctx.message && ctx.message.text && ctx.message.text.startsWith('/')\<close>\<close>

fun is_slash_command :: "string option \<Rightarrow> bool" where
  "is_slash_command (Some (c # cs)) = (c = CHR ''/'')"
| "is_slash_command t = False"

text \<open>A reply is the cooldown notice of the middleware or a message of a handler.\<close>

datatype reply = PleaseWait | HandlerReply string

text \<open>What one run of the middleware did: the replies sent, whether \<open>next()\<close> was called,
  whether it threw (the exception passes through the \<open>finally\<close>), and the state left.\<close>

record dispatch =
  replies :: "reply list"
  handler_called :: bool
  handler_threw :: bool
  state_after :: guard_state

text \<open>
  The rest of the middleware chain, which \<open>next()\<close> runs: given the state it finds, the
  replies it sends, whether it throws, and the state it leaves. The state is part of it
  because the chain contains the \<open>bot.on('text')\<close> middleware, which calls
  \<open>isCommandAllowed\<close> itself for a text starting with a dot.
\<close>

type_synonym continuation = "guard_state \<Rightarrow> (reply list \<times> bool) \<times> guard_state"

text \<open>
  The middleware of \<open>bot.use\<close>. For a text starting with a slash: a key already in
  \<open>processingCommands\<close> ends the run at once; a user in cooldown gets the notice and the
  run ends; otherwise the key is added, \<open>next()\<close> runs, and the \<open>finally\<close> block schedules
  the deletion of the key after 60000 ms. Any other update goes straight to \<open>next()\<close>.
\<close>

definition middleware :: "int \<Rightarrow> ctx \<Rightarrow> continuation \<Rightarrow> guard_state \<Rightarrow> dispatch" where
  "middleware now c nxt s =
     (if is_slash_command (message_text c) then
        (let commandKey = (from_id c, message_id c) in
         if commandKey \<in> processingCommands s
         then \<lparr> replies = [], handler_called = False, handler_threw = False, state_after = s \<rparr>
         else (case isCommandAllowed now (from_id c) s of
                 (False, s1) \<Rightarrow>
                   \<lparr> replies = [PleaseWait], handler_called = False, handler_threw = False,
                     state_after = s1 \<rparr>
               | (True, s1) \<Rightarrow>
                   (let s2 = s1\<lparr> processingCommands := insert commandKey (processingCommands s1) \<rparr>;
                        ran = nxt s2;
                        s3 = snd ran
                    in \<lparr> replies = fst (fst ran), handler_called = True,
                          handler_threw = snd (fst ran),
                          state_after = s3\<lparr> timers := timers s3 @ [(60000, commandKey)] \<rparr> \<rparr>)))
      else (let ran = nxt s
            in \<lparr> replies = fst (fst ran), handler_called = True, handler_threw = snd (fst ran),
                  state_after = snd ran \<rparr>))"

text \<open>The callback of a timer: \<open>processingCommands.delete(commandKey)\<close>.\<close>

definition timer_fired :: "command_key \<Rightarrow> guard_state \<Rightarrow> guard_state" where
  "timer_fired k s = s\<lparr> processingCommands := processingCommands s - {k} \<rparr>"

text \<open>Example states, an example update and an example handler, used to run the
  definitions.\<close>

definition cards_handler :: continuation where
  "cards_handler s = (([HandlerReply ''cards''], False), s)"

definition state_7_at_1000 :: guard_state where
  "state_7_at_1000 = \<lparr> userStates = [7 \<mapsto> 1000], processingCommands = {}, timers = [] \<rparr>"

definition gen_update :: ctx where
  "gen_update = \<lparr> message_text = Some ''/gen 477349'', from_id = 7, message_id = 42 \<rparr>"

definition state_7_in_flight :: guard_state where
  "state_7_in_flight = \<lparr> userStates = [7 \<mapsto> 1000], processingCommands = {(7, 42)}, timers = [] \<rparr>"

section \<open>The registry lookup of the \<open>cedula\<close> command\<close>

text \<open>
  One call of \<open>fetchWithTimeout\<close> either returns a response, of which the handler reads
  the status and the outcome of \<open>resp.json()\<close>, or throws: an \<open>AbortError\<close> when the
  8000 ms timer aborts the request, another error when the network fails.
\<close>

datatype sri_body = NotJson | WithoutContribuyente | WithContribuyente

record sri_response =
  status :: nat
  json_body :: sri_body

datatype fetch_error = AbortError | NetworkError | NoResponse

datatype fetch_outcome = Responded sri_response | Threw fetch_error

text \<open>What the loop does that can be seen from outside: a request (with the number of
  the attempt) or a pause of so many milliseconds.\<close>

datatype event = Fetch nat | Wait nat

record loop_state =
  resp :: "sri_response option"
  trace :: "event list"
  thrown :: "fetch_error option"

text \<open>
  The loop \<open>for (let attempt = 1; attempt <= 2; attempt++)\<close>. \<open>fetches n\<close> is the outcome
  of the request of attempt \<open>n\<close>. In the \<open>try\<close> block, after a response, the two status tests
  either \<open>break\<close> or pause, and the statement after them is an unconditional \<open>break\<close>:
  every path that received a response leaves the loop. Only the \<open>catch\<close> block lets the
  loop go on to the next attempt.
\<close>

function retry_loop :: "(nat \<Rightarrow> fetch_outcome) \<Rightarrow> nat \<Rightarrow> loop_state \<Rightarrow> loop_state" where
  "retry_loop fetches attempt st =
     (if attempt \<le> 2 then
        (case fetches attempt of
           Responded r \<Rightarrow>
             (let st1 = st\<lparr> resp := Some r, trace := trace st @ [Fetch attempt] \<rparr> in
              if status r = 429 \<and> attempt \<noteq> 1 then st1
              else
                (let st2 = (if status r = 429 then st1\<lparr> trace := trace st1 @ [Wait 1200] \<rparr> else st1) in
                 if 500 \<le> status r \<and> status r < 600 \<and> attempt \<noteq> 1 then st2
                 else
                   (let st3 = (if 500 \<le> status r \<and> status r < 600
                               then st2\<lparr> trace := trace st2 @ [Wait 800] \<rparr> else st2)
                    in st3)))
         | Threw err \<Rightarrow>
             (let st1 = st\<lparr> trace := trace st @ [Fetch attempt] \<rparr> in
              if attempt = 2 then st1\<lparr> thrown := Some err \<rparr>
              else retry_loop fetches (attempt + 1) (st1\<lparr> trace := trace st1 @ [Wait 700] \<rparr>)))
      else st)"
  by pat_completeness auto
termination
  by (relation "measure (\<lambda>(fetches, attempt, st). 3 - attempt)") auto

datatype cedula_reply =
    NotFoundReply | OverloadedReply | ErrorReply | UnexpectedReply
  | InfoReply | NoInfoReply | TimeoutReply

text \<open>The replies after the loop, by status and body, and the replies of the outer
  \<open>catch\<close> for an exception.\<close>

definition classify_response :: "sri_response \<Rightarrow> cedula_reply" where
  "classify_response r =
     (if status r = 404 then NotFoundReply
      else if status r = 429 then OverloadedReply
      else if status r \<ge> 400 then ErrorReply
      else (case json_body r of
              NotJson \<Rightarrow> UnexpectedReply
            | WithContribuyente \<Rightarrow> InfoReply
            | WithoutContribuyente \<Rightarrow> NoInfoReply))"

definition classify_error :: "fetch_error \<Rightarrow> cedula_reply" where
  "classify_error err = (if err = AbortError then TimeoutReply else ErrorReply)"

text \<open>The handler from the loop on (the identifier has passed the ten-digit test): the
  reply sent and the requests and pauses made.\<close>

definition cedula_lookup :: "(nat \<Rightarrow> fetch_outcome) \<Rightarrow> cedula_reply \<times> event list" where
  "cedula_lookup fetches =
     (let st = retry_loop fetches 1 \<lparr> resp = None, trace = [], thrown = None \<rparr> in
      case thrown st of
        Some err \<Rightarrow> (classify_error err, trace st)
      | None \<Rightarrow>
          (case resp st of
             None \<Rightarrow> (classify_error NoResponse, trace st)
           | Some r \<Rightarrow> (classify_response r, trace st)))"

text \<open>A registry that answers every request with the same status and no JSON body,
  and one that answers 429 first and 200 with data afterwards.\<close>

definition always_status :: "nat \<Rightarrow> nat \<Rightarrow> fetch_outcome" where
  "always_status code n = Responded \<lparr> status = code, json_body = NotJson \<rparr>"

definition busy_then_fine :: "nat \<Rightarrow> fetch_outcome" where
  "busy_then_fine n =
     (if n = 1 then Responded \<lparr> status = 429, json_body = NotJson \<rparr>
      else Responded \<lparr> status = 200, json_body = WithContribuyente \<rparr>)"

definition count_fetches :: "event list \<Rightarrow> nat" where
  "count_fetches evs = length (filter (\<lambda>e. case e of Fetch n \<Rightarrow> True | Wait ms \<Rightarrow> False) evs)"

section \<open>The BIN lookup: \<open>lookupBin\<close>\<close>

text \<open>
  A value produced by \<open>response.json()\<close>. The type of numbers is a parameter: of a number
  the code only uses whether it is zero. An object is the list of its own properties.
\<close>

datatype 'n json =
    JNull | JBool bool | JNum 'n | JStr string
  | JArr "'n json list" | JObj "(string \<times> 'n json) list"

datatype js_error = TypeError | SyntaxError | FetchFailed | LookupFailed

text \<open>\<open>v.k\<close> for a parsed value \<open>v\<close> and one of the keys the code reads (\<open>bank\<close>,
  \<open>scheme\<close>, \<open>type\<close>, \<open>country\<close>, \<open>brand\<close>, \<open>level\<close>): it throws on \<open>null\<close>, is the
  property of an object if present, and \<open>undefined\<close> (\<open>None\<close>) otherwise.\<close>

fun member :: "'n json \<Rightarrow> string \<Rightarrow> js_error + 'n json option" where
  "member JNull k = Inl TypeError"
| "member (JObj kvs) k = Inr (map_of kvs k)"
| "member v k = Inr None"

text \<open>\<open>v?.k\<close> for \<open>v\<close> possibly \<open>undefined\<close> and the keys \<open>name\<close>, \<open>alpha2\<close>, \<open>code\<close>:
  \<open>undefined\<close> when \<open>v\<close> is \<open>undefined\<close> or \<open>null\<close>, and never an exception.\<close>

fun opt_member :: "'n json option \<Rightarrow> string \<Rightarrow> 'n json option" where
  "opt_member (Some (JObj kvs)) k = map_of kvs k"
| "opt_member v k = None"

text \<open>Truthiness of a parsed value or \<open>undefined\<close>.\<close>

fun truthy :: "('n::zero) json option \<Rightarrow> bool" where
  "truthy None = False"
| "truthy (Some JNull) = False"
| "truthy (Some (JBool b)) = b"
| "truthy (Some (JNum n)) = (n \<noteq> 0)"
| "truthy (Some (JStr s)) = (s \<noteq> [])"
| "truthy (Some (JArr xs)) = True"
| "truthy (Some (JObj kvs)) = True"

text \<open>\<open>a || b\<close>, and \<open>a || 'literal'\<close>, whose value is never \<open>undefined\<close>.\<close>

definition js_or :: "('n::zero) json option \<Rightarrow> 'n json option \<Rightarrow> 'n json option" where
  "js_or a b = (if truthy a then a else b)"

fun or_literal :: "('n::zero) json option \<Rightarrow> string \<Rightarrow> 'n json" where
  "or_literal None lit = JStr lit"
| "or_literal (Some v) lit = (if truthy (Some v) then v else JStr lit)"

record 'n lookupResult =
  bank :: "'n json"
  brand :: "'n json"
  card_type :: "'n json"
  country :: "'n json"
  countryCode :: "'n json"
  level :: "'n json"

text \<open>The object literal built from the payload of binlist.net. The six property reads
  of \<open>data1\<close> are evaluated in order and the first exception ends the evaluation.\<close>

definition map_binlist :: "('n::zero) json \<Rightarrow> js_error + 'n lookupResult" where
  "map_binlist data1 =
     (case member data1 ''bank'' of Inl e \<Rightarrow> Inl e | Inr v_bank \<Rightarrow>
      (case member data1 ''scheme'' of Inl e \<Rightarrow> Inl e | Inr v_scheme \<Rightarrow>
      (case member data1 ''type'' of Inl e \<Rightarrow> Inl e | Inr v_type \<Rightarrow>
      (case member data1 ''country'' of Inl e \<Rightarrow> Inl e | Inr v_country \<Rightarrow>
      (case member data1 ''brand'' of Inl e \<Rightarrow> Inl e | Inr v_brand \<Rightarrow>
        Inr \<lparr> bank = or_literal (opt_member v_bank ''name'') ''Desconhecido'',
              brand = or_literal v_scheme ''Desconhecida'',
              card_type = or_literal v_type ''Desconhecido'',
              country = or_literal (opt_member v_country ''name'') ''Desconhecido'',
              countryCode = or_literal (opt_member v_country ''alpha2'') ''??'',
              level = or_literal v_brand ''Desconhecido'' \<rparr>)))))"

text \<open>The object literal built from the payload of bintable.com.\<close>

definition map_bintable :: "('n::zero) json \<Rightarrow> js_error + 'n lookupResult" where
  "map_bintable data2 =
     (case member data2 ''bank'' of Inl e \<Rightarrow> Inl e | Inr v_bank \<Rightarrow>
      (case member data2 ''scheme'' of Inl e \<Rightarrow> Inl e | Inr v_scheme \<Rightarrow>
      (case member data2 ''brand'' of Inl e \<Rightarrow> Inl e | Inr v_brand \<Rightarrow>
      (case member data2 ''type'' of Inl e \<Rightarrow> Inl e | Inr v_type \<Rightarrow>
      (case member data2 ''country'' of Inl e \<Rightarrow> Inl e | Inr v_country \<Rightarrow>
      (case member data2 ''level'' of Inl e \<Rightarrow> Inl e | Inr v_level \<Rightarrow>
        Inr \<lparr> bank = or_literal (opt_member v_bank ''name'') ''Desconhecido'',
              brand = or_literal (js_or v_scheme v_brand) ''Desconhecida'',
              card_type = or_literal v_type ''Desconhecido'',
              country = or_literal (opt_member v_country ''name'') ''Desconhecido'',
              countryCode = or_literal (opt_member v_country ''code'') ''??'',
              level = or_literal v_level ''Desconhecido'' \<rparr>))))))"

text \<open>
  What a provider does when asked: the \<open>fetch\<close> is rejected, or it gives a response with
  a status and the outcome of \<open>response.json()\<close> (a parsed value, or a syntax error).
\<close>

datatype 'n payload = Unparsable | Parsed "'n json"

datatype 'n provider_answer = FetchRejected | Response nat "'n payload"

datatype provider = Binlist | Bintable

text \<open>\<open>response.ok\<close>: the status is in the range 200 to 299.\<close>

definition response_ok :: "nat \<Rightarrow> bool" where
  "response_ok st = (200 \<le> st \<and> st \<le> 299)"

text \<open>The value returned for one provider's successful response: the mapped payload, or
  \<open>null\<close> when \<open>json()\<close> or the mapping throws, which the \<open>catch\<close> turns into \<open>null\<close>.\<close>

definition from_binlist :: "('n::zero) payload \<Rightarrow> 'n lookupResult option" where
  "from_binlist p =
     (case p of
        Unparsable \<Rightarrow> None
      | Parsed data1 \<Rightarrow> (case map_binlist data1 of Inl e \<Rightarrow> None | Inr res \<Rightarrow> Some res))"

definition from_bintable :: "('n::zero) payload \<Rightarrow> 'n lookupResult option" where
  "from_bintable p =
     (case p of
        Unparsable \<Rightarrow> None
      | Parsed data2 \<Rightarrow> (case map_bintable data2 of Inl e \<Rightarrow> None | Inr res \<Rightarrow> Some res))"

text \<open>
  \<open>lookupBin\<close>, given what each provider answers when asked. The result is the value
  returned (\<open>None\<close> for \<open>null\<close>) and the providers asked, in order. The whole body is one
  \<open>try\<close> block: a rejected \<open>fetch\<close>, a failing \<open>json()\<close> and the final \<open>throw\<close> all
  end in the \<open>catch\<close>, which returns \<open>null\<close>.
\<close>

definition lookupBin ::
  "('n::zero) provider_answer \<Rightarrow> 'n provider_answer \<Rightarrow> 'n lookupResult option \<times> provider list" where
  "lookupBin response1 response2 =
     (case response1 of
        FetchRejected \<Rightarrow> (None, [Binlist])
      | Response status1 payload1 \<Rightarrow>
          if response_ok status1 then (from_binlist payload1, [Binlist])
          else
            (case response2 of
               FetchRejected \<Rightarrow> (None, [Binlist, Bintable])
             | Response status2 payload2 \<Rightarrow>
                 if response_ok status2 then (from_bintable payload2, [Binlist, Bintable])
                 else (None, [Binlist, Bintable])))"

text \<open>Example payloads.\<close>

definition visa_payload :: "int json" where
  "visa_payload =
     JObj [(''scheme'', JStr ''visa''), (''type'', JStr ''debit''),
           (''bank'', JObj [(''name'', JStr ''ACME'')]),
           (''country'', JObj [(''name'', JStr ''Brasil''), (''code'', JStr ''BR'')]),
           (''level'', JStr ''classic'')]"

definition visa_result :: "int lookupResult" where
  "visa_result =
     \<lparr> bank = JStr ''ACME'', brand = JStr ''visa'', card_type = JStr ''debit'',
       country = JStr ''Brasil'', countryCode = JStr ''BR'', level = JStr ''classic'' \<rparr>"

section \<open>The card generator\<close>

text \<open>
  Modelled from the spec: \<open>isValidBin\<close> of \<open>utils.js\<close>, a file that is not among the
  sources. The spec's words: "digits-only, length inclusive between 6 and 16".
\<close>

definition isValidBin :: "string \<Rightarrow> bool" where
  "isValidBin b = (list_all is_digit b \<and> 6 \<le> length b \<and> length b \<le> 16)"

text \<open>The value of a digit character and the character of a digit.\<close>

definition digit_val :: "char \<Rightarrow> nat" where
  "digit_val c = of_char c - 48"

definition digit_char :: "nat \<Rightarrow> char" where
  "digit_char d = char_of (48 + d)"

text \<open>
  Modelled from the spec: the Luhn checksum, which \<open>utils.js\<close> computes. The spec's
  words: "sum of digits at odd positions from the right unchanged, digits at even
  positions from the right doubled and digit-summed if >9, total mod 10 == 0".
  \<open>luhn_sum\<close> takes the digits from the right; its flag says that the first of them is at
  an even position.
\<close>

definition digit_sum :: "nat \<Rightarrow> nat" where
  "digit_sum n = n div 10 + n mod 10"

definition luhn_double :: "nat \<Rightarrow> nat" where
  "luhn_double d = (if 2 * d > 9 then digit_sum (2 * d) else 2 * d)"

fun luhn_sum :: "bool \<Rightarrow> nat list \<Rightarrow> nat" where
  "luhn_sum even_pos [] = 0"
| "luhn_sum even_pos (d # ds) = (if even_pos then luhn_double d else d) + luhn_sum (\<not> even_pos) ds"

definition luhn_valid :: "string \<Rightarrow> bool" where
  "luhn_valid s = (luhn_sum False (rev (map digit_val s)) mod 10 = 0)"

text \<open>
  Modelled from the spec: the final digit, "deterministically recompute[d] so the full
  sequence satisfies the Luhn checksum": the digit that brings the sum of the digits
  before it, the last of which is at an even position, to a multiple of ten.
\<close>

definition check_digit :: "string \<Rightarrow> nat" where
  "check_digit body = (10 - luhn_sum True (rev (map digit_val body)) mod 10) mod 10"

text \<open>The random choices of one call of \<open>generateCard\<close>: the digits drawn to fill the
  number (the \<open>k\<close>-th draw, reduced to a digit) and the expiry and cvv drawn.\<close>

record draw =
  filler :: "nat \<Rightarrow> nat"
  drawn_month :: string
  drawn_year :: string
  drawn_cvv :: string

record generatedCard =
  number :: string
  card_month :: string
  card_year :: string
  card_cvv :: string

definition CARD_LENGTH :: nat where
  "CARD_LENGTH = 16"

text \<open>
  Modelled from the spec: \<open>generateCard\<close> of \<open>utils.js\<close>. The spec's words: "pad/extend
  the bin with randomly chosen digits up to a fixed total length (reference: 16 digits),
  then deterministically recompute the final digit so the full sequence satisfies the
  Luhn checksum". The final digit of the padded sequence is replaced by the check digit
  of the digits before it; month, year and cvv are the drawn ones.
\<close>

definition pad_bin :: "string \<Rightarrow> (nat \<Rightarrow> nat) \<Rightarrow> string" where
  "pad_bin b f = b @ map (\<lambda>k. digit_char (f k mod 10)) [0..<CARD_LENGTH - length b]"

definition generateCard :: "string \<Rightarrow> draw \<Rightarrow> generatedCard" where
  "generateCard b d =
     (let body = butlast (pad_bin b (filler d))
      in \<lparr> number = body @ [digit_char (check_digit body)],
           card_month = drawn_month d, card_year = drawn_year d, card_cvv = drawn_cvv d \<rparr>)"

text \<open>\<open>s.slice(-2)\<close>: the last two characters, or the whole string if it is shorter.\<close>

definition slice_last2 :: "string \<Rightarrow> string" where
  "slice_last2 s = drop (length s - 2) s"

text \<open>The body of the callback in the \<open>gen\<close> handler: the overrides written over the
  fields of a generated card.\<close>

definition apply_fixed ::
  "string option \<Rightarrow> string option \<Rightarrow> string option \<Rightarrow> generatedCard \<Rightarrow> generatedCard" where
  "apply_fixed fixedMonth fixedYear fixedCVV crd =
     (let card1 = (case fixedMonth of
                     None \<Rightarrow> crd
                   | Some m \<Rightarrow> if m \<noteq> [] then crd\<lparr> card_month := m \<rparr> else crd);
          card2 = (case fixedYear of
                     None \<Rightarrow> card1
                   | Some y \<Rightarrow>
                       if y \<noteq> []
                       then card1\<lparr> card_year := (if slice_last2 y \<noteq> [] then slice_last2 y
                                                 else card_year card1) \<rparr>
                       else card1);
          card3 = (case fixedCVV of
                     None \<Rightarrow> card2
                   | Some v \<Rightarrow> if v \<noteq> [] then card2\<lparr> card_cvv := v \<rparr> else card2)
      in card3)"

text \<open>\<open>Array(10).fill().map(() => ...)\<close> in the \<open>gen\<close> handler: ten cards, the \<open>i\<close>-th
  made with the random choices \<open>draws i\<close>.\<close>

definition gen_cards ::
  "string \<Rightarrow> string option \<Rightarrow> string option \<Rightarrow> string option \<Rightarrow> (nat \<Rightarrow> draw) \<Rightarrow> generatedCard list" where
  "gen_cards b fixedMonth fixedYear fixedCVV draws =
     map (\<lambda>i. apply_fixed fixedMonth fixedYear fixedCVV (generateCard b (draws i))) [0..<10]"

section \<open>The \<open>gen\<close> command\<close>

text \<open>\<open>parts.join(' ')\<close>\<close>

fun join_spaces :: "string list \<Rightarrow> string" where
  "join_spaces [] = []"
| "join_spaces [w] = w"
| "join_spaces (w # v # ws) = w @ CHR '' '' # join_spaces (v # ws)"

text \<open>The characters matched by \<open>\w\<close>, and the line terminators, which \<open>.\<close> does not
  match.\<close>

definition is_word :: "char \<Rightarrow> bool" where
  "is_word c =
     (c \<in> set ''abcdefghijklmnopqrstuvwxyzABCDEFGHIJKLMNOPQRSTUVWXYZ0123456789_'')"

definition is_line_end :: "char \<Rightarrow> bool" where
  "is_line_end c = (c = CHR 0x0A \<or> c = CHR 0x0D)"

text \<open>
  \<open>getCommandArgs\<close>, on the text of the message. For a text starting with a slash:
  \<open>text.split(' ').slice(1).join(' ')\<close>. Otherwise the second group of
  \<open>/^\.(\w+)\s*(.*)/\<close>: after the dot, a non-empty run of word characters, then the white
  space, then everything up to the end of the line; the empty string when the pattern does
  not match.
\<close>

fun getCommandArgs :: "string \<Rightarrow> string" where
  "getCommandArgs [] = []"
| "getCommandArgs (c # cs) =
     (if c = CHR ''/'' then join_spaces (drop 1 (split_on (CHR '' '') (c # cs)))
      else if c = CHR ''.'' \<and> takeWhile is_word cs \<noteq> []
      then takeWhile (\<lambda>ch. \<not> is_line_end ch) (dropWhile is_space (dropWhile is_word cs))
      else [])"

text \<open>The tests of the overrides in the handler: \<open>/^(0[1-9]|1[0-2])$/\<close>,
  \<open>/^([0-9]{2}|20[2-3][0-9])$/\<close> and \<open>/^[0-9]{3,4}$/\<close>.\<close>

fun valid_month :: "string \<Rightarrow> bool" where
  "valid_month [a, b] =
     ((a = CHR ''0'' \<and> b \<in> set ''123456789'') \<or> (a = CHR ''1'' \<and> b \<in> set ''012''))"
| "valid_month s = False"

definition valid_year :: "string \<Rightarrow> bool" where
  "valid_year s = ((length s = 2 \<and> list_all is_digit s) \<or> looks_like_year s)"

definition valid_cvv :: "string \<Rightarrow> bool" where
  "valid_cvv s = ((length s = 3 \<or> length s = 4) \<and> list_all is_digit s)"

text \<open>\<open>fixed && !pattern.test(fixed)\<close>: an override that is present and fails its test.\<close>

fun rejected :: "(string \<Rightarrow> bool) \<Rightarrow> string option \<Rightarrow> bool" where
  "rejected ok None = False"
| "rejected ok (Some v) = (v \<noteq> [] \<and> \<not> ok v)"

datatype gen_reply =
  UsageReply | InvalidBinReply | InvalidMonthReply | InvalidYearReply | InvalidCvvReply

text \<open>
  The handler registered for \<open>gen\<close>, from the text of the message to the array \<open>cards\<close>:
  an early \<open>return ctx.reply(...)\<close> is the reply on the left, the ten cards are on the
  right. (What follows in the handler, the BIN lookup and the composition of the message,
  does not change \<open>cards\<close>.)
\<close>

definition gen_command :: "string \<Rightarrow> (nat \<Rightarrow> draw) \<Rightarrow> gen_reply + generatedCard list" where
  "gen_command text draws =
     (let input = getCommandArgs text in
      if input = [] then Inl UsageReply
      else
        (let parsed = parseGenInput input in
         case bin parsed of
           None \<Rightarrow> Inl InvalidBinReply
         | Some b \<Rightarrow>
             if \<not> isValidBin b then Inl InvalidBinReply
             else if rejected valid_month (month parsed) then Inl InvalidMonthReply
             else if rejected valid_year (year parsed) then Inl InvalidYearReply
             else if rejected valid_cvv (cvv parsed) then Inl InvalidCvvReply
             else Inr (gen_cards b (month parsed) (year parsed) (cvv parsed) draws)))"

text \<open>Example random choices: every filler digit is 7.\<close>

definition sevens :: "nat \<Rightarrow> draw" where
  "sevens i = \<lparr> filler = (\<lambda>k. 7), drawn_month = ''05'', drawn_year = ''29'', drawn_cvv = ''123'' \<rparr>"

section \<open>Properties of the input normalizer\<close>

lemma nth_opt_take: "i < n \<Longrightarrow> nth_opt (take n xs) i = nth_opt xs i"
  by (simp add: nth_opt_def)

text \<open>
  C4, as the code behaves: the input \<open>477349002646|05/27|123\<close> has three positional
  fields, so \<open>123\<close> sits in the year slot and the cvv slot is \<open>undefined\<close>. The month
  \<open>05/27\<close> is split, the year becomes \<open>2027\<close> and overwrites \<open>123\<close>; the cvv of the
  result is unset.
\<close>

theorem parseGenInput_combined_month_year:
  "parseGenInput ''477349002646|05/27|123'' =
     \<lparr> bin = Some ''477349002646'', month = Some ''05'', year = Some ''2027'', cvv = None \<rparr>"
  by code_simp

text \<open>
  C4, as the claim states it, fails: the result for \<open>477349002646|05/27|123\<close> is not the
  specification with cvv \<open>123\<close>.
\<close>

theorem parseGenInput_combined_month_year_cvv_lost:
  "parseGenInput ''477349002646|05/27|123'' \<noteq>
     \<lparr> bin = Some ''477349002646'', month = Some ''05'', year = Some ''2027'', cvv = Some ''123'' \<rparr>"
  by code_simp

text \<open>
  C5, the code at the claim's input: for \<open>477349xxxx|2025|06\<close> the two-character year
  \<open>06\<close> is expanded to \<open>2006\<close> before the swap test, \<open>2006\<close> does not match the month
  pattern, and no swap happens: the month stays \<open>2025\<close> and the year is \<open>2006\<close>.
\<close>

theorem parseGenInput_reversed_year_month_not_swapped:
  "parseGenInput ''477349xxxx|2025|06'' =
     \<lparr> bin = Some ''477349'', month = Some ''2025'', year = Some ''2006'', cvv = None \<rparr>"
  by code_simp

text \<open>
  C8, as the claim states it, fails: the fourth positional field \<open>12a\<close> contains a letter
  and is kept as the cvv.
\<close>

theorem parseGenInput_cvv_letter_kept:
  "nth_opt (split_fields ''477349 05 2027 12a'') 3 = Some ''12a''
   \<and> cvv (parseGenInput ''477349 05 2027 12a'') = Some ''12a''"
  by code_simp

text \<open>
  C8, as the code behaves: for every input whose fourth positional field contains the
  letter \<open>x\<close> or \<open>X\<close>, the cvv of the result is unset; for every input whose fourth
  positional field contains neither, whatever other letters it holds, the cvv of the
  result is that field as given.
\<close>

theorem parseGenInput_cvv_with_x_unset:
  assumes "nth_opt (split_fields input) 3 = Some c"
  shows "(list_ex is_x c \<longrightarrow> cvv (parseGenInput input) = None)
       \<and> (\<not> list_ex is_x c \<longrightarrow> cvv (parseGenInput input) = Some c)"
  using assms by (auto simp: parseGenInput_def Let_def list_ex_iff)

theorem parseGenInput_cvv_with_x_unset_witness:
  "nth_opt (split_fields ''477349 05 2027 1x2'') 3 = Some ''1x2'' \<and> list_ex is_x ''1x2''
   \<and> cvv (parseGenInput ''477349 05 2027 1x2'') = None
   \<and> nth_opt (split_fields ''477349 05 2027 1a2'') 3 = Some ''1a2'' \<and> \<not> list_ex is_x ''1a2''
   \<and> cvv (parseGenInput ''477349 05 2027 1a2'') = Some ''1a2''"
proof -
  have f: "nth_opt (split_fields ''477349 05 2027 1x2'') 3 = Some ''1x2''"
    by code_simp
  have x: "list_ex is_x ''1x2''"
    by (simp add: is_x_def)
  have g: "nth_opt (split_fields ''477349 05 2027 1a2'') 3 = Some ''1a2''"
    by code_simp
  have a: "\<not> list_ex is_x ''1a2''"
    by (simp add: is_x_def)
  show ?thesis
    using f x g a parseGenInput_cvv_with_x_unset [OF f] parseGenInput_cvv_with_x_unset [OF g]
    by simp
qed

text \<open>
  C10: the result depends on the first four positional fields only. Two inputs whose
  field lists agree on their first four entries are normalized to the same specification,
  whatever follows the fourth field.
\<close>

theorem parseGenInput_first_four_fields:
  assumes "take 4 (split_fields a) = take 4 (split_fields b)"
  shows "parseGenInput a = parseGenInput b"
proof -
  have "nth_opt (split_fields a) i = nth_opt (split_fields b) i" if "i < 4" for i
    using nth_opt_take [OF that, of "split_fields a"] nth_opt_take [OF that, of "split_fields b"]
      assms by simp
  then have "nth_opt (split_fields a) 0 = nth_opt (split_fields b) 0"
    and "nth_opt (split_fields a) 1 = nth_opt (split_fields b) 1"
    and "nth_opt (split_fields a) 2 = nth_opt (split_fields b) 2"
    and "nth_opt (split_fields a) 3 = nth_opt (split_fields b) 3"
    by simp_all
  then show ?thesis
    by (simp add: parseGenInput_def Let_def)
qed

theorem parseGenInput_first_four_fields_witness:
  "take 4 (split_fields ''477349 05 2027 123 extra more'') = take 4 (split_fields ''477349|05|2027|123'')
   \<and> parseGenInput ''477349 05 2027 123 extra more'' = parseGenInput ''477349|05|2027|123''"
proof -
  have h: "take 4 (split_fields ''477349 05 2027 123 extra more'')
           = take 4 (split_fields ''477349|05|2027|123'')"
    by code_simp
  show ?thesis
    using h parseGenInput_first_four_fields [OF h] by simp
qed

section \<open>Properties of the cooldown and the dispatch middleware\<close>

text \<open>Every time stored by \<open>isCommandAllowed\<close> is a clock reading, so with a positive
  clock no stored time is 0.\<close>

lemma isCommandAllowed_times_positive:
  assumes "\<And>u t. userStates s u = Some t \<Longrightarrow> 0 < t" and "0 < now"
    and "userStates (snd (isCommandAllowed now userId s)) u = Some t"
  shows "0 < t"
  using assms by (auto simp: isCommandAllowed_def split: option.splits if_splits)

text \<open>
  C6: for every user id whose stored time, if any, is a clock reading (not 0): when the
  user has no stored time, or at least 2000 ms have passed since it, \<open>isCommandAllowed\<close>
  returns true and stores the current time for that user; otherwise it returns false and
  the state is the one it was given.
\<close>

theorem isCommandAllowed_cooldown:
  assumes "userStates s userId \<noteq> Some 0"
  shows "if (case userStates s userId of None \<Rightarrow> True | Some t \<Rightarrow> 2000 \<le> now - t)
         then isCommandAllowed now userId s
                = (True, s\<lparr>userStates := (userStates s)(userId \<mapsto> now)\<rparr>)
         else isCommandAllowed now userId s = (False, s)"
  using assms by (auto simp: isCommandAllowed_def COOLDOWN_PERIOD_def split: option.splits)

theorem isCommandAllowed_cooldown_witness:
  "userStates state_7_at_1000 7 \<noteq> Some 0
   \<and> isCommandAllowed 2999 7 state_7_at_1000 = (False, state_7_at_1000)
   \<and> isCommandAllowed 3000 7 state_7_at_1000
       = (True, state_7_at_1000\<lparr>userStates := (userStates state_7_at_1000)(7 \<mapsto> 3000)\<rparr>)
   \<and> isCommandAllowed 3000 8 state_7_at_1000
       = (True, state_7_at_1000\<lparr>userStates := (userStates state_7_at_1000)(8 \<mapsto> 3000)\<rparr>)"
proof -
  have h7: "userStates state_7_at_1000 7 \<noteq> Some 0"
    and h8: "userStates state_7_at_1000 8 \<noteq> Some 0"
    by (simp_all add: state_7_at_1000_def)
  have v7: "userStates state_7_at_1000 7 = Some 1000"
    and v8: "userStates state_7_at_1000 8 = None"
    by (simp_all add: state_7_at_1000_def)
  show ?thesis
    using h7 isCommandAllowed_cooldown [OF h7, of 2999]
      isCommandAllowed_cooldown [OF h7, of 3000]
      isCommandAllowed_cooldown [OF h8, of 3000]
    by (simp add: v7 v8)
qed

text \<open>
  C7: for a text starting with a slash, (1) when the command key is not in the in-flight
  set and the cooldown denies the user, the middleware sends exactly one reply, the
  "please wait" notice, calls no handler, and leaves the in-flight set as it was, so the
  key is not in it; (2) when the key is already in the in-flight set, the middleware sends
  no reply, calls no handler and leaves the whole state unchanged.
\<close>

theorem middleware_denied_and_duplicate:
  assumes "is_slash_command (message_text c)"
  shows "((from_id c, message_id c) \<notin> processingCommands s
            \<and> \<not> fst (isCommandAllowed now (from_id c) s)
          \<longrightarrow> replies (middleware now c nxt s) = [PleaseWait]
              \<and> \<not> handler_called (middleware now c nxt s)
              \<and> processingCommands (state_after (middleware now c nxt s)) = processingCommands s
              \<and> (from_id c, message_id c) \<notin> processingCommands (state_after (middleware now c nxt s))
              \<and> timers (state_after (middleware now c nxt s)) = timers s)
       \<and> ((from_id c, message_id c) \<in> processingCommands s
          \<longrightarrow> replies (middleware now c nxt s) = []
              \<and> \<not> handler_called (middleware now c nxt s)
              \<and> state_after (middleware now c nxt s) = s)"
proof (intro conjI impI)
  assume d: "(from_id c, message_id c) \<in> processingCommands s"
  with assms show "replies (middleware now c nxt s) = []"
    and "\<not> handler_called (middleware now c nxt s)"
    and "state_after (middleware now c nxt s) = s"
    by (simp_all add: middleware_def)
next
  assume h: "(from_id c, message_id c) \<notin> processingCommands s
             \<and> \<not> fst (isCommandAllowed now (from_id c) s)"
  then obtain s1 where a: "isCommandAllowed now (from_id c) s = (False, s1)"
    by (cases "isCommandAllowed now (from_id c) s") auto
  then have s1: "s1 = s"
    by (auto simp: isCommandAllowed_def split: option.splits if_splits)
  from assms h a s1 show "replies (middleware now c nxt s) = [PleaseWait]"
    and "\<not> handler_called (middleware now c nxt s)"
    and "processingCommands (state_after (middleware now c nxt s)) = processingCommands s"
    and "(from_id c, message_id c) \<notin> processingCommands (state_after (middleware now c nxt s))"
    and "timers (state_after (middleware now c nxt s)) = timers s"
    by (simp_all add: middleware_def)
qed

theorem middleware_denied_and_duplicate_witness:
  "is_slash_command (message_text gen_update)
   \<and> (from_id gen_update, message_id gen_update) \<notin> processingCommands state_7_at_1000
   \<and> \<not> fst (isCommandAllowed 1500 (from_id gen_update) state_7_at_1000)
   \<and> replies (middleware 1500 gen_update cards_handler state_7_at_1000) = [PleaseWait]
   \<and> \<not> handler_called (middleware 1500 gen_update cards_handler state_7_at_1000)
   \<and> (from_id gen_update, message_id gen_update)
        \<notin> processingCommands (state_after (middleware 1500 gen_update cards_handler state_7_at_1000))
   \<and> (from_id gen_update, message_id gen_update) \<in> processingCommands state_7_in_flight
   \<and> replies (middleware 5000 gen_update cards_handler state_7_in_flight) = []
   \<and> \<not> handler_called (middleware 5000 gen_update cards_handler state_7_in_flight)
   \<and> state_after (middleware 5000 gen_update cards_handler state_7_in_flight) = state_7_in_flight"
proof -
  have sl: "is_slash_command (message_text gen_update)"
    by (simp add: gen_update_def)
  have k1: "(from_id gen_update, message_id gen_update) \<notin> processingCommands state_7_at_1000"
    by (simp add: gen_update_def state_7_at_1000_def)
  have d1: "\<not> fst (isCommandAllowed 1500 (from_id gen_update) state_7_at_1000)"
    by (simp add: gen_update_def state_7_at_1000_def isCommandAllowed_def COOLDOWN_PERIOD_def)
  have k2: "(from_id gen_update, message_id gen_update) \<in> processingCommands state_7_in_flight"
    by (simp add: gen_update_def state_7_in_flight_def)
  show ?thesis
    using sl k1 d1 k2
      middleware_denied_and_duplicate [OF sl, of state_7_at_1000 1500 cards_handler]
      middleware_denied_and_duplicate [OF sl, of state_7_in_flight 5000 cards_handler]
    by simp
qed

section \<open>Properties of the registry lookup\<close>

text \<open>
  C2, the code at the claim's input: when the first attempt is answered with status 429,
  the handler pauses 1200 ms and then leaves the loop without a second request, whatever
  the registry would have answered next; the reply is the "overloaded" notice for the 429.
  With status 500 it pauses 800 ms and likewise makes no second request.
\<close>

theorem cedula_429_waits_but_never_retries:
  "cedula_lookup busy_then_fine = (OverloadedReply, [Fetch 1, Wait 1200])
   \<and> count_fetches (snd (cedula_lookup busy_then_fine)) = 1
   \<and> cedula_lookup (always_status 500) = (ErrorReply, [Fetch 1, Wait 800])"
  by (simp add: cedula_lookup_def busy_then_fine_def always_status_def count_fetches_def
      classify_response_def)

text \<open>In general: once the first request is answered, with whatever status, no second
  request is made.\<close>

lemma cedula_response_ends_loop:
  assumes "fetches 1 = Responded r"
  shows "count_fetches (snd (cedula_lookup fetches)) = 1"
  using assms
  by (simp add: cedula_lookup_def count_fetches_def Let_def split: option.splits)

section \<open>Properties of the BIN lookup\<close>

lemma map_binlist_object:
  "map_binlist (JObj kvs) =
     Inr \<lparr> bank = or_literal (opt_member (map_of kvs ''bank'') ''name'') ''Desconhecido'',
           brand = or_literal (map_of kvs ''scheme'') ''Desconhecida'',
           card_type = or_literal (map_of kvs ''type'') ''Desconhecido'',
           country = or_literal (opt_member (map_of kvs ''country'') ''name'') ''Desconhecido'',
           countryCode = or_literal (opt_member (map_of kvs ''country'') ''alpha2'') ''??'',
           level = or_literal (map_of kvs ''brand'') ''Desconhecido'' \<rparr>"
  by (simp add: map_binlist_def)

lemma map_bintable_object:
  "map_bintable (JObj kvs) =
     Inr \<lparr> bank = or_literal (opt_member (map_of kvs ''bank'') ''name'') ''Desconhecido'',
           brand = or_literal (js_or (map_of kvs ''scheme'') (map_of kvs ''brand'')) ''Desconhecida'',
           card_type = or_literal (map_of kvs ''type'') ''Desconhecido'',
           country = or_literal (opt_member (map_of kvs ''country'') ''name'') ''Desconhecido'',
           countryCode = or_literal (opt_member (map_of kvs ''country'') ''code'') ''??'',
           level = or_literal (map_of kvs ''level'') ''Desconhecido'' \<rparr>"
  by (simp add: map_bintable_def)

lemma or_literal_cases: "or_literal v lit = JStr lit \<or> v = Some (or_literal v lit)"
  by (cases v) auto

lemma js_or_cases: "js_or a b = a \<or> js_or a b = b"
  by (simp add: js_or_def)

text \<open>
  C9: for every payload that is a JSON object, whatever properties it has or lacks, the
  mapping of either provider returns a result and raises nothing, and each of the six
  fields of the result is the fallback literal of that field or the value the payload
  holds at the place the field is read from.
\<close>

theorem provider_mapping_total_on_objects:
  "(\<exists>res. map_binlist (JObj kvs) = Inr res
      \<and> (bank res = JStr ''Desconhecido'' \<or> opt_member (map_of kvs ''bank'') ''name'' = Some (bank res))
      \<and> (brand res = JStr ''Desconhecida'' \<or> map_of kvs ''scheme'' = Some (brand res))
      \<and> (card_type res = JStr ''Desconhecido'' \<or> map_of kvs ''type'' = Some (card_type res))
      \<and> (country res = JStr ''Desconhecido''
           \<or> opt_member (map_of kvs ''country'') ''name'' = Some (country res))
      \<and> (countryCode res = JStr ''??''
           \<or> opt_member (map_of kvs ''country'') ''alpha2'' = Some (countryCode res))
      \<and> (level res = JStr ''Desconhecido'' \<or> map_of kvs ''brand'' = Some (level res)))
   \<and> (\<exists>res. map_bintable (JObj kvs) = Inr res
      \<and> (bank res = JStr ''Desconhecido'' \<or> opt_member (map_of kvs ''bank'') ''name'' = Some (bank res))
      \<and> (brand res = JStr ''Desconhecida'' \<or> map_of kvs ''scheme'' = Some (brand res)
           \<or> map_of kvs ''brand'' = Some (brand res))
      \<and> (card_type res = JStr ''Desconhecido'' \<or> map_of kvs ''type'' = Some (card_type res))
      \<and> (country res = JStr ''Desconhecido''
           \<or> opt_member (map_of kvs ''country'') ''name'' = Some (country res))
      \<and> (countryCode res = JStr ''??''
           \<or> opt_member (map_of kvs ''country'') ''code'' = Some (countryCode res))
      \<and> (level res = JStr ''Desconhecido'' \<or> map_of kvs ''level'' = Some (level res)))"
proof (intro conjI)
  show "\<exists>res. map_binlist (JObj kvs) = Inr res
      \<and> (bank res = JStr ''Desconhecido'' \<or> opt_member (map_of kvs ''bank'') ''name'' = Some (bank res))
      \<and> (brand res = JStr ''Desconhecida'' \<or> map_of kvs ''scheme'' = Some (brand res))
      \<and> (card_type res = JStr ''Desconhecido'' \<or> map_of kvs ''type'' = Some (card_type res))
      \<and> (country res = JStr ''Desconhecido''
           \<or> opt_member (map_of kvs ''country'') ''name'' = Some (country res))
      \<and> (countryCode res = JStr ''??''
           \<or> opt_member (map_of kvs ''country'') ''alpha2'' = Some (countryCode res))
      \<and> (level res = JStr ''Desconhecido'' \<or> map_of kvs ''brand'' = Some (level res))"
    unfolding map_binlist_object
    using or_literal_cases [of "opt_member (map_of kvs ''bank'') ''name''" "''Desconhecido''"]
      or_literal_cases [of "map_of kvs ''scheme''" "''Desconhecida''"]
      or_literal_cases [of "map_of kvs ''type''" "''Desconhecido''"]
      or_literal_cases [of "opt_member (map_of kvs ''country'') ''name''" "''Desconhecido''"]
      or_literal_cases [of "opt_member (map_of kvs ''country'') ''alpha2''" "''??''"]
      or_literal_cases [of "map_of kvs ''brand''" "''Desconhecido''"]
    by simp
next
  have b: "or_literal (js_or (map_of kvs ''scheme'') (map_of kvs ''brand'')) ''Desconhecida''
             = JStr ''Desconhecida''
           \<or> map_of kvs ''scheme''
               = Some (or_literal (js_or (map_of kvs ''scheme'') (map_of kvs ''brand'')) ''Desconhecida'')
           \<or> map_of kvs ''brand''
               = Some (or_literal (js_or (map_of kvs ''scheme'') (map_of kvs ''brand'')) ''Desconhecida'')"
    using or_literal_cases [of "js_or (map_of kvs ''scheme'') (map_of kvs ''brand'')" "''Desconhecida''"]
      js_or_cases [of "map_of kvs ''scheme''" "map_of kvs ''brand''"]
    by auto
  show "\<exists>res. map_bintable (JObj kvs) = Inr res
      \<and> (bank res = JStr ''Desconhecido'' \<or> opt_member (map_of kvs ''bank'') ''name'' = Some (bank res))
      \<and> (brand res = JStr ''Desconhecida'' \<or> map_of kvs ''scheme'' = Some (brand res)
           \<or> map_of kvs ''brand'' = Some (brand res))
      \<and> (card_type res = JStr ''Desconhecido'' \<or> map_of kvs ''type'' = Some (card_type res))
      \<and> (country res = JStr ''Desconhecido''
           \<or> opt_member (map_of kvs ''country'') ''name'' = Some (country res))
      \<and> (countryCode res = JStr ''??''
           \<or> opt_member (map_of kvs ''country'') ''code'' = Some (countryCode res))
      \<and> (level res = JStr ''Desconhecido'' \<or> map_of kvs ''level'' = Some (level res))"
    unfolding map_bintable_object
    using b
      or_literal_cases [of "opt_member (map_of kvs ''bank'') ''name''" "''Desconhecido''"]
      or_literal_cases [of "map_of kvs ''type''" "''Desconhecido''"]
      or_literal_cases [of "opt_member (map_of kvs ''country'') ''name''" "''Desconhecido''"]
      or_literal_cases [of "opt_member (map_of kvs ''country'') ''code''" "''??''"]
      or_literal_cases [of "map_of kvs ''level''" "''Desconhecido''"]
    by simp
qed

text \<open>
  C3, as the claim states it, fails: when the request to the first provider is rejected
  (a hard error), the second provider is not asked, even though it would have answered
  with a valid payload, and the result is \<open>null\<close>.
\<close>

theorem lookupBin_hard_error_no_fallback:
  "Bintable \<notin> set (snd (lookupBin FetchRejected (Response 200 (Parsed visa_payload))))
   \<and> fst (lookupBin FetchRejected (Response 200 (Parsed visa_payload))) = None"
  by (simp add: lookupBin_def)

text \<open>
  C3, as the code behaves: the first provider is always asked, and first; the second is
  asked exactly when the first gave a response whose status is not a success. The result
  is a value exactly when the first provider answered with a success status and its
  payload was parsed and mapped, in which case it is that mapping, or the first answered
  with a non-success status, the second with a success status, and the second's payload
  was parsed and mapped, in which case it is the second's mapping. In every other case
  (a rejected request or an unparsable payload at either provider, or two non-success
  statuses) the result is \<open>null\<close>.
\<close>

theorem lookupBin_fallback_on_status_only:
  "(snd (lookupBin r1 r2) = [Binlist] \<or> snd (lookupBin r1 r2) = [Binlist, Bintable])
   \<and> (Bintable \<in> set (snd (lookupBin r1 r2))
        \<longleftrightarrow> (\<exists>st p. r1 = Response st p \<and> \<not> response_ok st))
   \<and> (fst (lookupBin r1 r2) = Some res
        \<longleftrightarrow> (\<exists>st p. r1 = Response st p \<and> response_ok st \<and> from_binlist p = Some res)
            \<or> (\<exists>st p st2 p2. r1 = Response st p \<and> \<not> response_ok st
                  \<and> r2 = Response st2 p2 \<and> response_ok st2 \<and> from_bintable p2 = Some res))"
proof (intro conjI)
  show "snd (lookupBin r1 r2) = [Binlist] \<or> snd (lookupBin r1 r2) = [Binlist, Bintable]"
    by (simp add: lookupBin_def split: provider_answer.splits)
  show "Bintable \<in> set (snd (lookupBin r1 r2))
        \<longleftrightarrow> (\<exists>st p. r1 = Response st p \<and> \<not> response_ok st)"
    by (cases r1; cases r2) (auto simp: lookupBin_def)
  show "fst (lookupBin r1 r2) = Some res
        \<longleftrightarrow> (\<exists>st p. r1 = Response st p \<and> response_ok st \<and> from_binlist p = Some res)
            \<or> (\<exists>st p st2 p2. r1 = Response st p \<and> \<not> response_ok st
                  \<and> r2 = Response st2 p2 \<and> response_ok st2 \<and> from_bintable p2 = Some res)"
    by (cases r1; cases r2) (auto simp: lookupBin_def)
qed

theorem lookupBin_fallback_on_status_only_witness:
  "snd (lookupBin (Response 500 Unparsable) (Response 200 (Parsed visa_payload))) = [Binlist, Bintable]
   \<and> fst (lookupBin (Response 500 Unparsable) (Response 200 (Parsed visa_payload))) = Some visa_result"
proof -
  have m: "from_bintable (Parsed visa_payload) = Some visa_result"
    by (simp add: from_bintable_def map_bintable_def visa_payload_def visa_result_def js_or_def)
  have n: "\<not> response_ok 500" and k: "response_ok 200"
    by (simp_all add: response_ok_def)
  show ?thesis
    using m n k
      lookupBin_fallback_on_status_only
        [of "Response 500 Unparsable" "Response 200 (Parsed visa_payload)" visa_result]
    by auto
qed

section \<open>Properties of the card generator\<close>

lemma digit_val_digit_char: "d < 10 \<Longrightarrow> digit_val (digit_char d) = d"
  by (simp add: digit_val_def digit_char_def)

lemma is_digit_digit_char: "d < 10 \<Longrightarrow> is_digit (digit_char d)"
proof -
  have "\<forall>k \<in> set [0..<10]. is_digit (digit_char k)"
    by code_simp
  then show "d < 10 \<Longrightarrow> is_digit (digit_char d)"
    by simp
qed

lemma check_digit_less: "check_digit body < 10"
  unfolding check_digit_def by (rule mod_less_divisor) simp

lemma complement_mod_10: "((10 - s mod 10) mod 10 + s) mod 10 = (0::nat)"
proof -
  have "s mod 10 < 10"
    by simp
  then have ten: "(10 - s mod 10) + s mod 10 = 10"
    by linarith
  have "((10 - s mod 10) mod 10 + s) mod 10 = ((10 - s mod 10) + s) mod 10"
    by (rule mod_add_left_eq)
  also have "\<dots> = ((10 - s mod 10) + s mod 10) mod 10"
    by (rule mod_add_right_eq [symmetric])
  also have "\<dots> = 0"
    unfolding ten by simp
  finally show ?thesis .
qed

text \<open>Appending the check digit gives a sequence that passes the checksum.\<close>

lemma luhn_valid_check_digit: "luhn_valid (body @ [digit_char (check_digit body)])"
proof -
  have v: "digit_val (digit_char (check_digit body)) = check_digit body"
    using check_digit_less by (rule digit_val_digit_char)
  have "luhn_sum False (rev (map digit_val (body @ [digit_char (check_digit body)])))
          = check_digit body + luhn_sum True (rev (map digit_val body))"
    by (simp add: v)
  also have "\<dots> mod 10 = 0"
    unfolding check_digit_def by (rule complement_mod_10)
  finally show ?thesis
    by (simp add: luhn_valid_def)
qed

lemma length_pad_bin: "length b \<le> 16 \<Longrightarrow> length (pad_bin b f) = 16"
  by (simp add: pad_bin_def CARD_LENGTH_def)

lemma digits_pad_bin: "list_all is_digit b \<Longrightarrow> list_all is_digit (pad_bin b f)"
  by (auto simp: pad_bin_def list_all_iff intro: is_digit_digit_char)

lemma number_apply_fixed: "number (apply_fixed fm fy fc crd) = number crd"
  by (simp add: apply_fixed_def Let_def split: option.splits)

lemma number_generateCard:
  "number (generateCard b d)
     = butlast (pad_bin b (filler d)) @ [digit_char (check_digit (butlast (pad_bin b (filler d))))]"
  by (simp add: generateCard_def Let_def)

lemma take_butlast_pad_bin:
  assumes "length b \<le> 16"
  shows "take (min (length b) 15) (butlast (pad_bin b f)) = take 15 b"
proof -
  have "butlast (pad_bin b f) = take 15 (pad_bin b f)"
    using length_pad_bin [OF assms, of f] by (simp add: butlast_conv_take)
  moreover have "take (min (length b) 15) (pad_bin b f) = take 15 b"
    by (simp add: pad_bin_def min_def)
  ultimately show ?thesis
    by (simp add: min_def)
qed

lemma generateCard_valid:
  assumes "isValidBin b"
  shows "luhn_valid (number (generateCard b d))"
    and "length (number (generateCard b d)) = 16"
    and "list_all is_digit (number (generateCard b d))"
    and "take (min (length b) 15) (number (generateCard b d)) = take 15 b"
proof -
  let ?p = "pad_bin b (filler d)"
  from assms have len: "length b \<le> 16" and dig: "list_all is_digit b"
    by (simp_all add: isValidBin_def)
  have lp: "length ?p = 16"
    using len by (rule length_pad_bin)
  show "luhn_valid (number (generateCard b d))"
    unfolding number_generateCard by (rule luhn_valid_check_digit)
  show "length (number (generateCard b d)) = 16"
    unfolding number_generateCard using lp by simp
  have "list_all is_digit (butlast ?p)"
    using digits_pad_bin [OF dig, of "filler d"]
    by (auto simp: list_all_iff dest: in_set_butlastD)
  then show "list_all is_digit (number (generateCard b d))"
    unfolding number_generateCard
    by (simp add: is_digit_digit_char check_digit_less)
  have "length (butlast ?p) = 15"
    using lp by simp
  then show "take (min (length b) 15) (number (generateCard b d)) = take 15 b"
    unfolding number_generateCard
    using take_butlast_pad_bin [OF len, of "filler d"] by (simp add: min_def)
qed

text \<open>The ten cards of the handler, for a valid bin and any overrides and draws.\<close>

lemma gen_cards_valid:
  assumes "isValidBin b"
  shows "length (gen_cards b fixedMonth fixedYear fixedCVV draws) = 10"
    and "c \<in> set (gen_cards b fixedMonth fixedYear fixedCVV draws) \<Longrightarrow> luhn_valid (number c)"
    and "c \<in> set (gen_cards b fixedMonth fixedYear fixedCVV draws)
           \<Longrightarrow> take (min (length b) 15) (number c) = take 15 b"
proof -
  show "length (gen_cards b fixedMonth fixedYear fixedCVV draws) = 10"
    by (simp add: gen_cards_def)
next
  assume "c \<in> set (gen_cards b fixedMonth fixedYear fixedCVV draws)"
  then obtain i where "c = apply_fixed fixedMonth fixedYear fixedCVV (generateCard b (draws i))"
    by (auto simp: gen_cards_def)
  then have "number c = number (generateCard b (draws i))"
    by (simp add: number_apply_fixed)
  then show "luhn_valid (number c)"
    using generateCard_valid(1) [OF assms, of "draws i"] by simp
next
  assume "c \<in> set (gen_cards b fixedMonth fixedYear fixedCVV draws)"
  then obtain i where "c = apply_fixed fixedMonth fixedYear fixedCVV (generateCard b (draws i))"
    by (auto simp: gen_cards_def)
  then have "number c = number (generateCard b (draws i))"
    by (simp add: number_apply_fixed)
  then show "take (min (length b) 15) (number c) = take 15 b"
    using generateCard_valid(4) [OF assms, of "draws i"] by simp
qed

lemma parseGenInput_empty: "bin (parseGenInput []) = Some []"
  by code_simp

text \<open>
  C1, as the claim states it, fails twice. On the code: the message \<open>/gen 477349|13\<close>
  carries the bin \<open>477349\<close>, which the validity predicate accepts, and the command
  produces no card, because the handler returns the "invalid month" reply for the override
  \<open>13\<close>. On the modelled generator: the bin \<open>4111111111111112\<close> is accepted and does not
  pass the checksum, so no number of 16 digits both starts with it and passes; the command
  produces cards whose number is \<open>4111111111111111\<close>, which does not start with the bin.
\<close>

theorem gen_command_override_rejected_or_prefix_lost:
  "bin (parseGenInput (getCommandArgs ''/gen 477349|13'')) = Some ''477349''
   \<and> isValidBin ''477349''
   \<and> gen_command ''/gen 477349|13'' sevens = Inl InvalidMonthReply
   \<and> bin (parseGenInput (getCommandArgs ''/gen 4111111111111112'')) = Some ''4111111111111112''
   \<and> isValidBin ''4111111111111112''
   \<and> \<not> luhn_valid ''4111111111111112''
   \<and> gen_command ''/gen 4111111111111112'' sevens
        = Inr (gen_cards ''4111111111111112'' None None None sevens)
   \<and> number (hd (gen_cards ''4111111111111112'' None None None sevens)) = ''4111111111111111''
   \<and> take 16 (number (hd (gen_cards ''4111111111111112'' None None None sevens)))
        \<noteq> ''4111111111111112''"
  by code_simp

text \<open>
  C1, as the code and the modelled generator behave: for every message whose bin is
  accepted by the validity predicate and whose month, year and cvv overrides are absent or
  pass the handler's tests, whatever the random draws, one invocation of the command
  produces exactly 10 cards, and the number of every card passes the Luhn checksum and
  starts with the bin when the bin has at most 15 digits, and with the first 15 digits of
  the bin when it has 16.
\<close>

theorem gen_command_ten_luhn_valid:
  assumes "bin (parseGenInput (getCommandArgs text)) = Some b"
    and "isValidBin b"
    and "\<not> rejected valid_month (month (parseGenInput (getCommandArgs text)))"
    and "\<not> rejected valid_year (year (parseGenInput (getCommandArgs text)))"
    and "\<not> rejected valid_cvv (cvv (parseGenInput (getCommandArgs text)))"
  shows "\<exists>cards. gen_command text draws = Inr cards
           \<and> length cards = 10
           \<and> (\<forall>c \<in> set cards.
                 luhn_valid (number c)
                 \<and> (length b \<le> 15 \<longrightarrow> take (length b) (number c) = b)
                 \<and> (length b = 16 \<longrightarrow> take 15 (number c) = take 15 b))"
proof -
  let ?p = "parseGenInput (getCommandArgs text)"
  let ?cards = "gen_cards b (month ?p) (year ?p) (cvv ?p) draws"
  have ne: "getCommandArgs text \<noteq> []"
  proof
    assume "getCommandArgs text = []"
    then have "bin ?p = Some []"
      using parseGenInput_empty by simp
    with assms(1) have "b = []"
      by simp
    with assms(2) show False
      by (simp add: isValidBin_def)
  qed
  have run: "gen_command text draws = Inr ?cards"
    using ne assms by (simp add: gen_command_def Let_def)
  have ten: "length ?cards = 10"
    by (rule gen_cards_valid(1) [OF assms(2)])
  have each: "luhn_valid (number c)
                \<and> (length b \<le> 15 \<longrightarrow> take (length b) (number c) = b)
                \<and> (length b = 16 \<longrightarrow> take 15 (number c) = take 15 b)"
    if "c \<in> set ?cards" for c
  proof -
    have l: "luhn_valid (number c)"
      using that by (rule gen_cards_valid(2) [OF assms(2)])
    have t: "take (min (length b) 15) (number c) = take 15 b"
      using that by (rule gen_cards_valid(3) [OF assms(2)])
    from l t show ?thesis
      by (auto simp: min_def)
  qed
  from run ten each show ?thesis
    by blast
qed

theorem gen_command_ten_luhn_valid_witness:
  "bin (parseGenInput (getCommandArgs ''/gen 477349xx|12|2027|123'')) = Some ''477349''
   \<and> isValidBin ''477349''
   \<and> \<not> rejected valid_month (month (parseGenInput (getCommandArgs ''/gen 477349xx|12|2027|123'')))
   \<and> \<not> rejected valid_year (year (parseGenInput (getCommandArgs ''/gen 477349xx|12|2027|123'')))
   \<and> \<not> rejected valid_cvv (cvv (parseGenInput (getCommandArgs ''/gen 477349xx|12|2027|123'')))
   \<and> (\<exists>cards. gen_command ''/gen 477349xx|12|2027|123'' sevens = Inr cards
         \<and> length cards = 10
         \<and> (\<forall>c \<in> set cards.
               luhn_valid (number c)
               \<and> (length ''477349'' \<le> 15 \<longrightarrow> take (length ''477349'') (number c) = ''477349'')
               \<and> (length ''477349'' = 16 \<longrightarrow> take 15 (number c) = take 15 ''477349'')))"
proof -
  have b: "bin (parseGenInput (getCommandArgs ''/gen 477349xx|12|2027|123'')) = Some ''477349''"
    by code_simp
  have v: "isValidBin ''477349''"
    by code_simp
  have m: "\<not> rejected valid_month (month (parseGenInput (getCommandArgs ''/gen 477349xx|12|2027|123'')))"
    by code_simp
  have y: "\<not> rejected valid_year (year (parseGenInput (getCommandArgs ''/gen 477349xx|12|2027|123'')))"
    by code_simp
  have k: "\<not> rejected valid_cvv (cvv (parseGenInput (getCommandArgs ''/gen 477349xx|12|2027|123'')))"
    by code_simp
  show ?thesis
    using b v m y k gen_command_ten_luhn_valid [OF b v m y k, of sevens]
    by (intro conjI)
qed

end
